theory Spec2Isabelle
  imports
    Complex_Main
    "HOL-Library.Word"
    "HOL-Library.Finite_Map"
    "HOL-Library.Sublist"
begin

section \<open>The data model of simplejson.go\<close>

text \<open>
  The library wraps one field, \<^verbatim>\<open>data interface{}\<close>. The dynamic types that the
  type assertions and type switches of the source tell apart are the constructors of
  \<open>val\<close>; every other dynamic type is \<open>VOther\<close> with a tag.

  Go's \<^verbatim>\<open>int\<close> is taken at its width on 64-bit platforms, so \<^verbatim>\<open>int\<close> and \<^verbatim>\<open>int64\<close>
  are both \<open>64 word\<close>, read as signed numbers with \<open>sint\<close>.
\<close>

type_synonym go_int = "64 word"
type_synonym go_int64 = "64 word"

text \<open>
  A \<^verbatim>\<open>float64\<close> is a finite number, an infinity or NaN. A finite one is kept as the
  rational number it denotes (every finite double is a dyadic rational); no arithmetic
  on floats occurs in the library, only the conversion to an integer. Not every
  rational is a double: what is proved for all of them holds for the doubles.
\<close>

datatype float64 = Finite rat | PosInf | NegInf | NaN

text \<open>
  A Go map value is either \<^verbatim>\<open>nil\<close> or a reference to a table with unique keys: an
  optional finite map. Reading a nil map behaves as reading an empty one; writing to it
  panics. A \<^verbatim>\<open>*Json\<close> stored in an interface is a pointer that may be nil as well.
  Slices are only read, so a slice is the list of its elements.
\<close>

datatype val =
    nil
  | VMap "(string, val) fmap option"
  | VArray "val list"
  | VString string
  | VFloat64 float64
  | VBool bool
  | VInt go_int
  | VInt64 go_int64
  | VStringSlice "string list"
  | VInt64Slice "go_int64 list"
  | VIntSlice "go_int list"
  | VJsonPtr "Json option"
  | VOther string
and Json = Json (data: val)

type_synonym go_map = "(string, val) fmap option"

text \<open>
  Error values. \<^verbatim>\<open>errors.New\<close> makes an \<open>errorString\<close>; the errors of
  \<^verbatim>\<open>encoding/json\<close> and of the filesystem are values of other types, told apart from
  every \<open>errorString\<close>. A nil error is \<open>None\<close>.
\<close>

datatype error = errorString string | json_error string | os_error string

definition errors_New :: "string \<Rightarrow> error option" where
  "errors_New text = Some (errorString text)"

text \<open>Run-time panics of the Go semantics and the explicit \<^verbatim>\<open>log.Panicf\<close>.\<close>

datatype panic =
    index_out_of_range int nat
  | assignment_to_entry_in_nil_map
  | nil_pointer_dereference
  | log_Panicf string nat

subsection \<open>Built-in operations on maps and slices\<close>

definition len_map :: "go_map \<Rightarrow> nat" where
  "len_map m = (case m of None \<Rightarrow> 0 | Some f \<Rightarrow> fcard (fmdom f))"

text \<open>The comma-ok lookup \<^verbatim>\<open>val, ok := m[key]\<close>: \<open>Some val\<close> when ok.\<close>

definition map_index :: "go_map \<Rightarrow> string \<Rightarrow> val option" where
  "map_index m key = (case m of None \<Rightarrow> None | Some f \<Rightarrow> fmlookup f key)"

text \<open>The assignment \<^verbatim>\<open>m[key] = val\<close>, which panics on a nil map.\<close>

definition map_assign :: "go_map \<Rightarrow> string \<Rightarrow> val \<Rightarrow> panic + go_map" where
  "map_assign m key v =
     (case m of None \<Rightarrow> Inl assignment_to_entry_in_nil_map
      | Some f \<Rightarrow> Inr (Some (fmupd key v f)))"

text \<open>The index expression \<^verbatim>\<open>a[index]\<close> with its bounds check.\<close>

definition slice_index :: "val list \<Rightarrow> go_int \<Rightarrow> panic + val" where
  "slice_index a index =
     (if 0 \<le> sint index \<and> sint index < int (length a)
      then Inr (a ! nat (sint index))
      else Inl (index_out_of_range (sint index) (length a)))"

section \<open>Type assertions\<close>

text \<open>
  A Go function returning \<^verbatim>\<open>(T, error)\<close> returns a pair here, the error \<open>None\<close> when nil.
\<close>

definition Map :: "Json \<Rightarrow> go_map \<times> error option" where
  "Map j =
     (case data j of
        VMap m \<Rightarrow> (m, None)
      | _ \<Rightarrow> (None, errors_New ''type assertion to map[string]interface{} failed''))"

definition Array :: "Json \<Rightarrow> val list \<times> error option" where
  "Array j =
     (case data j of
        VArray a \<Rightarrow> (a, None)
      | _ \<Rightarrow> ([], errors_New ''type assertion to []interface{} failed''))"

section \<open>Navigation\<close>

definition Count :: "Json \<Rightarrow> go_int \<times> error option" where
  "Count j =
     (case Map j of
        (m, Some err) \<Rightarrow> (- 1, Some err)
      | (m, None) \<Rightarrow> (of_nat (len_map m), None))"

definition IsNull :: "Json \<Rightarrow> bool" where
  "IsNull j =
     (if data j = nil then True
      else (case Map j of
              (m, None) \<Rightarrow> len_map m = 0
            | (m, Some ok) \<Rightarrow> False))"

definition Get :: "Json \<Rightarrow> string \<Rightarrow> Json" where
  "Get j key =
     (case Map j of
        (m, None) \<Rightarrow> (case map_index m key of Some v \<Rightarrow> Json v | None \<Rightarrow> Json nil)
      | (m, Some err) \<Rightarrow> Json nil)"

text \<open>\<^verbatim>\<open>CheckGet\<close> returns a nil pointer beside \<^verbatim>\<open>false\<close>.\<close>

definition CheckGet :: "Json \<Rightarrow> string \<Rightarrow> Json option \<times> bool" where
  "CheckGet j key =
     (case Map j of
        (m, None) \<Rightarrow> (case map_index m key of Some v \<Rightarrow> (Some (Json v), True) | None \<Rightarrow> (None, False))
      | (m, Some err) \<Rightarrow> (None, False))"

text \<open>The loop of \<^verbatim>\<open>GetPath\<close> over the remaining keys, \<open>jin\<close> being the loop variable.\<close>

fun GetPath_loop :: "Json \<Rightarrow> string list \<Rightarrow> Json" where
  "GetPath_loop jin [] = jin"
| "GetPath_loop jin (b # branch) =
     (case Map jin of
        (m, Some err) \<Rightarrow> Json nil
      | (m, None) \<Rightarrow>
          (case map_index m b of
             Some v \<Rightarrow> GetPath_loop (Json v) branch
           | None \<Rightarrow> Json nil))"

definition GetPath :: "Json \<Rightarrow> string list \<Rightarrow> Json" where
  "GetPath j branch = GetPath_loop j branch"

definition GetIndex :: "Json \<Rightarrow> go_int \<Rightarrow> panic + Json" where
  "GetIndex j index =
     (case Array j of
        (a, None) \<Rightarrow>
          (if sint index < int (length a)
           then (case slice_index a index of Inl p \<Rightarrow> Inl p | Inr v \<Rightarrow> Inr (Json v))
           else Inr (Json nil))
      | (a, Some err) \<Rightarrow> Inr (Json nil))"

text \<open>
  \<^verbatim>\<open>Set\<close> returns nothing and changes the table its receiver refers to; the model
  returns the receiver as it is after the call.
\<close>

definition Set :: "Json \<Rightarrow> string \<Rightarrow> val \<Rightarrow> panic + Json" where
  "Set j key v =
     (case Map j of
        (m, Some err) \<Rightarrow> Inr j
      | (m, None) \<Rightarrow>
          (case (case v of
                   VJsonPtr p \<Rightarrow> (case p of None \<Rightarrow> Inl nil_pointer_dereference
                                  | Some w \<Rightarrow> Inr (data w))
                 | _ \<Rightarrow> Inr v) of
             Inl p \<Rightarrow> Inl p
           | Inr v' \<Rightarrow>
               (case map_assign m key v' of
                  Inl p \<Rightarrow> Inl p
                | Inr m' \<Rightarrow> Inr (Json (VMap m')))))"

section \<open>Conversion to integers\<close>

text \<open>
  The conversion \<^verbatim>\<open>int(f)\<close> of a \<^verbatim>\<open>float64\<close> discards the fraction. When the
  result type cannot represent the value, the conversion succeeds with a result that
  depends on the implementation: that result is the parameter \<open>impl\<close>.
\<close>

definition discard_fraction :: "rat \<Rightarrow> int" where
  "discard_fraction q = (if q < 0 then - \<lfloor>\<bar>q\<bar>\<rfloor> else \<lfloor>\<bar>q\<bar>\<rfloor>)"

definition int_of_float64 :: "(float64 \<Rightarrow> go_int) \<Rightarrow> float64 \<Rightarrow> go_int" where
  "int_of_float64 impl f =
     (case f of
        Finite q \<Rightarrow>
          (if - (2 ^ 63) \<le> discard_fraction q \<and> discard_fraction q < 2 ^ 63
           then word_of_int (discard_fraction q)
           else impl f)
      | _ \<Rightarrow> impl f)"

text \<open>
  On amd64 the conversion instruction yields the "integer indefinite" value, the least
  \<^verbatim>\<open>int64\<close>, for NaN and for every value out of range.
\<close>

definition amd64_int_of_float64 :: "float64 \<Rightarrow> go_int" where
  "amd64_int_of_float64 f = - (2 ^ 63)"

text \<open>
  The method \<^verbatim>\<open>Int\<close>, written \<open>Int_json\<close> since \<open>Int\<close> is taken in HOL. On a 64-bit
  platform the conversion of an \<^verbatim>\<open>int64\<close> to \<^verbatim>\<open>int\<close> changes nothing.
\<close>

definition Int_json :: "(float64 \<Rightarrow> go_int) \<Rightarrow> Json \<Rightarrow> go_int \<times> error option" where
  "Int_json impl j =
     (case data j of
        VFloat64 f \<Rightarrow> (int_of_float64 impl f, None)
      | VInt f \<Rightarrow> (f, None)
      | VInt64 f \<Rightarrow> (f, None)
      | _ \<Rightarrow> (- 1, errors_New ''type assertion to int failed''))"

definition MustInt :: "(float64 \<Rightarrow> go_int) \<Rightarrow> Json \<Rightarrow> go_int list \<Rightarrow> panic + go_int" where
  "MustInt impl j args =
     (case (case args of
              [] \<Rightarrow> Inr 0
            | [d] \<Rightarrow> Inr d
            | _ \<Rightarrow> Inl (log_Panicf ''MustInt() received too many arguments %d'' (length args))) of
        Inl p \<Rightarrow> Inl p
      | Inr def \<Rightarrow>
          (case Int_json impl j of
             (i, None) \<Rightarrow> Inr i
           | (i, Some err) \<Rightarrow> Inr def))"

section \<open>Serialization and construction\<close>

text \<open>
  \<^verbatim>\<open>json.Marshal\<close>, \<^verbatim>\<open>json.Unmarshal\<close> and \<^verbatim>\<open>ioutil.ReadFile\<close> belong to the Go
  library, not to this package: they are parameters. Each returns the message of its
  error, if any; \<^verbatim>\<open>Unmarshal\<close> gets the bytes and the present content of its target
  and returns the content afterwards.
\<close>

type_synonym json_Marshal = "val \<Rightarrow> string \<times> string option"
type_synonym json_Unmarshal = "string \<Rightarrow> val \<Rightarrow> val \<times> string option"
type_synonym ioutil_ReadFile = "string \<Rightarrow> string \<times> string option"

definition MarshalJSON :: "json_Marshal \<Rightarrow> Json \<Rightarrow> string \<times> error option" where
  "MarshalJSON Marshal j = (case Marshal (data j) of (b, e) \<Rightarrow> (b, map_option json_error e))"

definition ToString :: "json_Marshal \<Rightarrow> Json \<Rightarrow> string \<times> error option" where
  "ToString Marshal j =
     (if IsNull j then ([], errors_New ''data is null'')
      else (case MarshalJSON Marshal j of
              (b, None) \<Rightarrow> (b, None)
            | (b, Some err) \<Rightarrow> ([], Some err)))"

definition UnmarshalJSON :: "json_Unmarshal \<Rightarrow> Json \<Rightarrow> string \<Rightarrow> Json \<times> error option" where
  "UnmarshalJSON Unmarshal j p =
     (case Unmarshal p (data j) of (d, e) \<Rightarrow> (Json d, map_option json_error e))"

definition NewJson :: "json_Unmarshal \<Rightarrow> string \<Rightarrow> Json option \<times> error option" where
  "NewJson Unmarshal body =
     (case UnmarshalJSON Unmarshal (Json nil) body of
        (j, Some err) \<Rightarrow> (None, Some err)
      | (j, None) \<Rightarrow> (Some j, None))"

subsection \<open>The functions of package strings that the loader calls\<close>

text \<open>\<^verbatim>\<open>strings.Split\<close> for a separator of one byte.\<close>

fun strings_Split :: "string \<Rightarrow> char \<Rightarrow> string list" where
  "strings_Split [] sep = [[]]"
| "strings_Split (c # s) sep =
     (if c = sep then [] # strings_Split s sep
      else (case strings_Split s sep of
              [] \<Rightarrow> [[c]]
            | x # xs \<Rightarrow> (c # x) # xs))"

definition strings_HasPrefix :: "string \<Rightarrow> string \<Rightarrow> bool" where
  "strings_HasPrefix s p = prefix p s"

text \<open>
  \<^verbatim>\<open>strings.TrimSpace\<close> removes leading and trailing white space as Unicode defines
  it. A Go string is a sequence of bytes; the white space runes are the six ASCII
  ones, U+0085 and U+00A0 (two bytes in UTF-8), and U+1680, U+2000 to U+200A, U+2028,
  U+2029, U+202F, U+205F and U+3000 (three bytes).
\<close>

definition asciiSpace :: "char \<Rightarrow> bool" where
  "asciiSpace c = (c \<in> set [CHR 0x09, CHR 0x0A, CHR 0x0B, CHR 0x0C, CHR 0x0D, CHR 0x20])"

definition space2 :: "char \<Rightarrow> char \<Rightarrow> bool" where
  "space2 a b = (a = CHR 0xC2 \<and> b \<in> set [CHR 0x85, CHR 0xA0])"

definition space3 :: "char \<Rightarrow> char \<Rightarrow> char \<Rightarrow> bool" where
  "space3 a b c =
     ((a = CHR 0xE1 \<and> b = CHR 0x9A \<and> c = CHR 0x80) \<or>
      (a = CHR 0xE2 \<and> b = CHR 0x80 \<and>
         c \<in> set [CHR 0x80, CHR 0x81, CHR 0x82, CHR 0x83, CHR 0x84, CHR 0x85, CHR 0x86,
                  CHR 0x87, CHR 0x88, CHR 0x89, CHR 0x8A, CHR 0xA8, CHR 0xA9, CHR 0xAF]) \<or>
      (a = CHR 0xE2 \<and> b = CHR 0x81 \<and> c = CHR 0x9F) \<or>
      (a = CHR 0xE3 \<and> b = CHR 0x80 \<and> c = CHR 0x80))"

fun TrimLeft_space :: "string \<Rightarrow> string" where
  "TrimLeft_space (a # b # c # s) =
     (if asciiSpace a then TrimLeft_space (b # c # s)
      else if space2 a b then TrimLeft_space (c # s)
      else if space3 a b c then TrimLeft_space s
      else a # b # c # s)"
| "TrimLeft_space [a, b] =
     (if asciiSpace a then TrimLeft_space [b]
      else if space2 a b then []
      else [a, b])"
| "TrimLeft_space [a] = (if asciiSpace a then [] else [a])"
| "TrimLeft_space [] = []"

text \<open>The same from the end, on the reversed string: \<open>c\<close> is the last byte.\<close>

fun TrimRight_space_rev :: "string \<Rightarrow> string" where
  "TrimRight_space_rev (c # b # a # s) =
     (if asciiSpace c then TrimRight_space_rev (b # a # s)
      else if space2 b c then TrimRight_space_rev (a # s)
      else if space3 a b c then TrimRight_space_rev s
      else c # b # a # s)"
| "TrimRight_space_rev [c, b] =
     (if asciiSpace c then TrimRight_space_rev [b]
      else if space2 b c then []
      else [c, b])"
| "TrimRight_space_rev [c] = (if asciiSpace c then [] else [c])"
| "TrimRight_space_rev [] = []"

definition strings_TrimSpace :: "string \<Rightarrow> string" where
  "strings_TrimSpace s = rev (TrimRight_space_rev (rev (TrimLeft_space s)))"

subsection \<open>Loading a file\<close>

text \<open>The loop over the lines; \<open>builder\<close> is the content of the buffer so far.\<close>

fun NewJsonFromFile_loop :: "string \<Rightarrow> string list \<Rightarrow> string" where
  "NewJsonFromFile_loop builder [] = builder"
| "NewJsonFromFile_loop builder (line # lines) =
     (if strings_TrimSpace line = [] \<or> strings_HasPrefix (strings_TrimSpace line) ''#''
      then NewJsonFromFile_loop builder lines
      else NewJsonFromFile_loop (builder @ strings_TrimSpace line) lines)"

definition NewJsonFromFile ::
  "ioutil_ReadFile \<Rightarrow> json_Unmarshal \<Rightarrow> string \<Rightarrow> Json option \<times> error option" where
  "NewJsonFromFile ReadFile Unmarshal filename =
     (case ReadFile filename of
        (stream, Some err) \<Rightarrow> (None, Some (os_error err))
      | (stream, None) \<Rightarrow>
          NewJson Unmarshal (NewJsonFromFile_loop [] (strings_Split stream (CHR 0x0A))))"

section \<open>Notions of the specification\<close>

text \<open>A value is null-ish when it is nil or a mapping with zero entries.\<close>

definition nullish :: "val \<Rightarrow> bool" where
  "nullish v = (case v of nil \<Rightarrow> True | VMap m \<Rightarrow> len_map m = 0 | _ \<Rightarrow> False)"


text \<open>Truncation toward zero, and the three numeric representations.\<close>

definition truncate_toward_zero :: "rat \<Rightarrow> int" where
  "truncate_toward_zero q = (if 0 \<le> q then \<lfloor>q\<rfloor> else \<lceil>q\<rceil>)"

definition is_number :: "val \<Rightarrow> bool" where
  "is_number v =
     (case v of VFloat64 f \<Rightarrow> True | VInt i \<Rightarrow> True | VInt64 i \<Rightarrow> True | _ \<Rightarrow> False)"

text \<open>
  The preprocessing of a file as the specification words it: split into lines, trim
  each, drop the empty ones and those starting with \<open>#\<close>, concatenate.
\<close>

definition kept :: "string \<Rightarrow> bool" where
  "kept line = (line \<noteq> [] \<and> \<not> strings_HasPrefix line ''#'')"

definition preprocessed :: "string \<Rightarrow> string" where
  "preprocessed content =
     concat (filter kept (map strings_TrimSpace (strings_Split content (CHR 0x0A))))"

text \<open>A full-line comment, and the content of a file made of given lines.\<close>

definition full_line_comment :: "string \<Rightarrow> bool" where
  "full_line_comment line = strings_HasPrefix (strings_TrimSpace line) ''#''"

fun join_lines :: "string list \<Rightarrow> string" where
  "join_lines [] = []"
| "join_lines [l] = l"
| "join_lines (l # l' # ls) = l @ CHR 0x0A # join_lines (l' # ls)"

subsection \<open>Collaborators for the examples\<close>

text \<open>
  The theorems below hold for every serializer, decoder and filesystem. To evaluate
  the functions at concrete inputs, the examples use collaborators that behave as
  \<^verbatim>\<open>encoding/json\<close> does on the few inputs listed (\<^verbatim>\<open>json.Marshal\<close> rejects NaN
  with an \<^verbatim>\<open>UnsupportedValueError\<close>) and report an error everywhere else, and a
  filesystem with two files.
\<close>

definition example_Marshal :: json_Marshal where
  "example_Marshal v =
     (case v of
        nil \<Rightarrow> (''null'', None)
      | VBool b \<Rightarrow> (if b then ''true'' else ''false'', None)
      | VFloat64 NaN \<Rightarrow> ([], Some ''json: unsupported value: NaN'')
      | _ \<Rightarrow> ([], Some ''not covered by the example''))"

definition example_Unmarshal :: json_Unmarshal where
  "example_Unmarshal p d =
     (if p = ''{}'' then (VMap (Some fmempty), None)
      else if p = ''null'' then (nil, None)
      else (d, Some ''not covered by the example''))"

definition example_ReadFile :: ioutil_ReadFile where
  "example_ReadFile filename =
     (if filename = ''commented.json'' then (join_lines [''{'', ''  # comment'', ''}''], None)
      else if filename = ''plain.json'' then (join_lines [''{'', ''}''], None)
      else ([], Some ''no such file''))"

section \<open>Properties\<close>

subsection \<open>Null-ish values\<close>

text \<open>
  C4. For every held value, \<open>IsNull\<close> is true if and only if the held data is the nil
  interface value or a mapping with zero entries (a nil map has none); for every
  other held value it is false.
\<close>

theorem IsNull_iff:
  "IsNull j = (data j = nil \<or> (\<exists>m. data j = VMap m \<and> len_map m = 0))"
  by (cases "data j") (simp_all add: IsNull_def Map_def errors_New_def)

subsection \<open>Counting\<close>

text \<open>
  C10. For every held value that is not a mapping, \<open>Count\<close> returns \<open>-1\<close> together with
  the error that \<open>Map\<close> returned, the failed type assertion; for every mapping it
  returns the number of entries, as an \<^verbatim>\<open>int\<close>, and no error.
\<close>

theorem Count_result:
  "(case data j of
      VMap m \<Rightarrow> Count j = (word_of_nat (len_map m), None)
    | _ \<Rightarrow> Count j = (- 1, snd (Map j)) \<and>
           snd (Map j) = Some (errorString ''type assertion to map[string]interface{} failed''))"
  by (cases "data j") (simp_all add: Count_def Map_def errors_New_def)

subsection \<open>Paths\<close>

lemma Get_nil [simp]: "Get (Json nil) key = Json nil"
  by (simp add: Get_def Map_def errors_New_def)

lemma foldl_Get_nil [simp]: "foldl Get (Json nil) branch = Json nil"
  by (induction branch) simp_all

lemma Get_cases:
  "Get j key =
     (if snd (Map j) = None
      then (case map_index (fst (Map j)) key of Some v \<Rightarrow> Json v | None \<Rightarrow> Json nil)
      else Json nil)"
  by (cases "Map j") (auto simp add: Get_def)

lemma GetPath_loop_foldl: "GetPath_loop jin branch = foldl Get jin branch"
proof (induction branch arbitrary: jin)
  case Nil
  show ?case by simp
next
  case (Cons b branch)
  obtain m e where M: "Map jin = (m, e)" by (cases "Map jin")
  show ?case
  proof (cases e)
    case None
    show ?thesis
    proof (cases "map_index m b")
      case None
      with M \<open>e = None\<close> have "Get jin b = Json nil" by (simp add: Get_cases)
      with M \<open>e = None\<close> None show ?thesis by simp
    next
      case (Some v)
      with M \<open>e = None\<close> have "Get jin b = Json v" by (simp add: Get_cases)
      with M \<open>e = None\<close> Some Cons.IH show ?thesis by simp
    qed
  next
    case (Some err)
    with M have "Get jin b = Json nil" by (simp add: Get_cases)
    with M Some show ?thesis by simp
  qed
qed

text \<open>
  C3. For every held value and every sequence of keys, \<open>GetPath\<close> returns the wrapper
  that iterating \<open>Get\<close> over the keys from the left returns, so the same data; with no
  key it returns the receiver.
\<close>

theorem GetPath_iterates_Get:
  "GetPath j branch = foldl Get j branch \<and> GetPath j [] = j"
  by (simp add: GetPath_def GetPath_loop_foldl)

subsection \<open>Defaults\<close>

text \<open>
  C8. \<open>MustInt\<close> without a default argument returns the value of \<open>Int\<close> when \<open>Int\<close>
  returns no error and 0 otherwise; with one default argument \<open>d\<close> it returns the
  value of \<open>Int\<close> when \<open>Int\<close> returns no error and \<open>d\<close> otherwise. It does not panic.
\<close>

theorem MustInt_result:
  "MustInt impl j [] =
     Inr (if snd (Int_json impl j) = None then fst (Int_json impl j) else 0) \<and>
   MustInt impl j [d] =
     Inr (if snd (Int_json impl j) = None then fst (Int_json impl j) else d)"
  by (cases "Int_json impl j") (auto simp add: MustInt_def)

subsection \<open>Indexing\<close>

lemma GetIndex_cases:
  "GetIndex j index =
     (case data j of
        VArray a \<Rightarrow>
          (if sint index < 0 then Inl (index_out_of_range (sint index) (length a))
           else if sint index < int (length a) then Inr (Json (a ! nat (sint index)))
           else Inr (Json nil))
      | _ \<Rightarrow> Inr (Json nil))"
  by (cases "data j") (auto simp add: GetIndex_def Array_def errors_New_def slice_index_def)

text \<open>
  C1. \<open>GetIndex\<close> is claimed never to panic and to return the null-ish placeholder for a
  negative index. On a receiver holding the sequence \<open>[1, 2, 3]\<close> the index \<open>-1\<close> passes
  the guard \<^verbatim>\<open>len(a) > index\<close>, and the index expression panics.
\<close>

theorem GetIndex_negative_index_panics:
  "GetIndex (Json (VArray [VFloat64 (Finite 1), VFloat64 (Finite 2), VFloat64 (Finite 3)])) (- 1)
     = Inl (index_out_of_range (- 1) 3)"
  by (simp add: GetIndex_def Array_def slice_index_def)

subsection \<open>Presence of a key\<close>

lemma IsNull_nullish: "IsNull j = nullish (data j)"
  by (cases "data j") (simp_all add: IsNull_def Map_def errors_New_def nullish_def)

text \<open>
  On the mapping \<^verbatim>\<open>{"a": {}}\<close> the key \<open>a\<close> does not map to null, \<open>CheckGet\<close> returns
  true, and \<open>Get\<close> returns a wrapper whose \<open>IsNull\<close> is true: a present null is not the
  only exception.
\<close>

theorem CheckGet_empty_mapping_counterexample:
  "map_index (Some (fmupd ''a'' (VMap (Some fmempty)) fmempty)) ''a'' \<noteq> Some nil \<and>
   snd (CheckGet (Json (VMap (Some (fmupd ''a'' (VMap (Some fmempty)) fmempty)))) ''a'') = True \<and>
   IsNull (Get (Json (VMap (Some (fmupd ''a'' (VMap (Some fmempty)) fmempty)))) ''a'') = True"
  by (simp add: map_index_def CheckGet_def Get_def Map_def IsNull_def len_map_def)

text \<open>
  C2. For every mapping receiver and every key, \<open>CheckGet\<close> returns false
  exactly when \<open>Get\<close> returns a wrapper whose \<open>IsNull\<close> is true, except when the key is
  present and maps to null or to a mapping with zero entries: then \<open>Get\<close> returns a
  null-ish wrapper while \<open>CheckGet\<close> returns that wrapper together with true.
\<close>

theorem CheckGet_vs_Get:
  "data j = VMap m \<Longrightarrow>
     (if (\<exists>v. map_index m key = Some v \<and> nullish v)
      then IsNull (Get j key) \<and> CheckGet j key = (Some (Get j key), True)
      else (snd (CheckGet j key) = False) = IsNull (Get j key))"
  by (cases "map_index m key")
     (auto simp add: CheckGet_def Get_def Map_def IsNull_nullish nullish_def)

theorem CheckGet_vs_Get_witness:
  "snd (CheckGet (Json (VMap (Some (fmupd ''a'' (VBool True) fmempty)))) ''b'') = False \<and>
   IsNull (Get (Json (VMap (Some (fmupd ''a'' (VBool True) fmempty)))) ''b'') \<and>
   snd (CheckGet (Json (VMap (Some (fmupd ''a'' (VBool True) fmempty)))) ''a'') = True"
  using CheckGet_vs_Get [of "Json (VMap (Some (fmupd ''a'' (VBool True) fmempty)))"
      "Some (fmupd ''a'' (VBool True) fmempty)" "''b''"]
    CheckGet_vs_Get [of "Json (VMap (Some (fmupd ''a'' (VBool True) fmempty)))"
      "Some (fmupd ''a'' (VBool True) fmempty)" "''a''"]
  by (simp add: map_index_def nullish_def Get_def Map_def IsNull_def errors_New_def)

subsection \<open>Storing a value\<close>


lemma Set_nil_map: "Set (Json (VMap None)) key (VBool b) = Inl assignment_to_entry_in_nil_map"
  by (simp add: Set_def Map_def map_assign_def)



subsection \<open>Conversion to a string\<close>

text \<open>
  A held NaN is not null-ish, yet \<open>ToString\<close> fails on it, with the error of the
  serializer.
\<close>

theorem ToString_NaN_counterexample:
  "IsNull (Json (VFloat64 NaN)) = False \<and>
   ToString example_Marshal (Json (VFloat64 NaN)) =
     ([], Some (json_error ''json: unsupported value: NaN''))"
  by (simp add: IsNull_def Map_def errors_New_def ToString_def MarshalJSON_def example_Marshal_def)

text \<open>
  C6. For every held value, \<open>ToString\<close> fails with the null-data error exactly
  when \<open>IsNull\<close> is true for the receiver, the empty mapping included; otherwise it
  returns the bytes of the serialized value as a string when the serializer succeeds,
  and the empty string with the serializer's error when it fails.
\<close>

theorem ToString_result:
  "(snd (ToString Marshal j) = Some (errorString ''data is null'')) = IsNull j \<and>
   (if IsNull j then ToString Marshal j = ([], Some (errorString ''data is null''))
    else ToString Marshal j =
      (case Marshal (data j) of
         (b, None) \<Rightarrow> (b, None)
       | (b, Some msg) \<Rightarrow> ([], Some (json_error msg))))"
  by (cases "Marshal (data j)")
     (auto simp add: ToString_def MarshalJSON_def errors_New_def split: option.splits)

subsection \<open>Conversion to an integer\<close>

lemma discard_fraction_truncate: "discard_fraction q = truncate_toward_zero q"
  by (simp add: discard_fraction_def truncate_toward_zero_def ceiling_def)

text \<open>
  The float \<open>2 ^ 64\<close>, which the JSON number 18446744073709551616 decodes to, is
  converted without error, but no \<^verbatim>\<open>int\<close> is its truncation; amd64 returns \<open>- (2 ^ 63)\<close>.
\<close>

theorem Int_json_huge_float_counterexample:
  "snd (Int_json amd64_int_of_float64 (Json (VFloat64 (Finite 18446744073709551616)))) = None \<and>
   sint (fst (Int_json amd64_int_of_float64 (Json (VFloat64 (Finite 18446744073709551616)))))
     \<noteq> truncate_toward_zero 18446744073709551616"
  by (simp add: Int_json_def int_of_float64_def discard_fraction_def amd64_int_of_float64_def
      truncate_toward_zero_def)

text \<open>
  C7. For every held value, \<open>Int\<close> returns no error exactly when the held value
  is a \<^verbatim>\<open>float64\<close>, an \<^verbatim>\<open>int\<close> or an \<^verbatim>\<open>int64\<close>, and otherwise returns \<open>-1\<close> with the
  type-assertion error; when the held value is a finite float whose truncation toward
  zero is in the range of \<^verbatim>\<open>int\<close>, the returned integer is that truncation.
\<close>

theorem Int_json_result:
  "(snd (Int_json impl j) = None) = is_number (data j) \<and>
   (is_number (data j) \<or>
      Int_json impl j = (- 1, Some (errorString ''type assertion to int failed''))) \<and>
   (data j = VFloat64 (Finite q) \<and>
      - (2 ^ 63) \<le> truncate_toward_zero q \<and> truncate_toward_zero q < 2 ^ 63 \<longrightarrow>
      sint (fst (Int_json impl j)) = truncate_toward_zero q)"
proof (intro conjI impI)
  show "(snd (Int_json impl j) = None) = is_number (data j)"
    by (cases "data j") (simp_all add: Int_json_def is_number_def errors_New_def)
  show "is_number (data j) \<or>
        Int_json impl j = (- 1, Some (errorString ''type assertion to int failed''))"
    by (cases "data j") (simp_all add: Int_json_def is_number_def errors_New_def)
next
  assume A: "data j = VFloat64 (Finite q) \<and>
      - (2 ^ 63) \<le> truncate_toward_zero q \<and> truncate_toward_zero q < 2 ^ 63"
  then have "fst (Int_json impl j) = word_of_int (truncate_toward_zero q)"
    by (simp add: Int_json_def int_of_float64_def discard_fraction_truncate)
  moreover have "sint (word_of_int (truncate_toward_zero q) :: 64 word) = truncate_toward_zero q"
    using A by (simp add: sint_sbintrunc' signed_take_bit_int_eq_self)
  ultimately show "sint (fst (Int_json impl j)) = truncate_toward_zero q"
    by simp
qed

theorem Int_json_result_witness:
  "snd (Int_json amd64_int_of_float64 (Json (VFloat64 (Finite (- (7 / 2)))))) = None \<and>
   sint (fst (Int_json amd64_int_of_float64 (Json (VFloat64 (Finite (- (7 / 2))))))) = - 3 \<and>
   snd (Int_json amd64_int_of_float64 (Json (VString ''7''))) \<noteq> None"
proof -
  have T: "truncate_toward_zero (- (7 / 2)) = - 3"
    by code_simp
  show ?thesis
    using Int_json_result [of amd64_int_of_float64 "Json (VFloat64 (Finite (- (7 / 2))))" "- (7 / 2)"]
      Int_json_result [of amd64_int_of_float64 "Json (VString ''7'')" 0]
    by (simp add: T is_number_def)
qed

subsection \<open>Loading a file\<close>

lemma NewJsonFromFile_loop_eq:
  "NewJsonFromFile_loop builder lines =
     builder @ concat (filter kept (map strings_TrimSpace lines))"
  by (induction lines arbitrary: builder) (simp_all add: kept_def)

lemma strings_Split_not_Nil [simp]: "strings_Split s sep \<noteq> []"
  by (induction s) (simp_all split: list.splits)

lemma strings_Split_no_sep: "sep \<notin> set l \<Longrightarrow> strings_Split l sep = [l]"
  by (induction l) auto

lemma strings_Split_append:
  "sep \<notin> set l \<Longrightarrow> strings_Split (l @ sep # s) sep = l # strings_Split s sep"
  by (induction l) auto

lemma strings_Split_join_lines:
  "ls \<noteq> [] \<Longrightarrow> \<forall>l \<in> set ls. CHR 0x0A \<notin> set l \<Longrightarrow>
   strings_Split (join_lines ls) (CHR 0x0A) = ls"
proof (induction ls rule: join_lines.induct)
  case 1
  then show ?case by simp
next
  case (2 l)
  then show ?case by (simp add: strings_Split_no_sep)
next
  case (3 l l' ls)
  then show ?case by (simp add: strings_Split_append)
qed

lemma preprocessed_join_lines:
  assumes "\<forall>l \<in> set ls. CHR 0x0A \<notin> set l"
  shows "preprocessed (join_lines ls) = concat (filter kept (map strings_TrimSpace ls))"
proof (cases ls)
  case Nil
  have "strings_TrimSpace [] = []"
    by (simp add: strings_TrimSpace_def)
  with Nil show ?thesis
    by (simp add: preprocessed_def kept_def)
next
  case (Cons a as)
  then have "ls \<noteq> []" by simp
  then have "strings_Split (join_lines ls) (CHR 0x0A) = ls"
    using assms by (rule strings_Split_join_lines)
  then show ?thesis
    by (simp add: preprocessed_def)
qed

lemma filter_kept_drop_comments:
  "filter kept (map strings_TrimSpace (filter (\<lambda>l. \<not> full_line_comment l) ls)) =
   filter kept (map strings_TrimSpace ls)"
  by (induction ls) (auto simp add: kept_def full_line_comment_def)

text \<open>
  C9. When the file can be read, \<open>NewJsonFromFile\<close> decodes the buffer obtained by
  splitting the content into lines, trimming each line, discarding the lines that are
  then empty or start with \<open>#\<close>, and concatenating the rest without newlines. Hence a
  file with full-line comments among its lines loads as the file with those lines
  removed does.
\<close>

theorem NewJsonFromFile_preprocessing:
  "(ReadFile filename = (content, None) \<longrightarrow>
      NewJsonFromFile ReadFile Unmarshal filename = NewJson Unmarshal (preprocessed content)) \<and>
   ((\<forall>l \<in> set ls. CHR 0x0A \<notin> set l) \<and>
    ReadFile commented = (join_lines ls, None) \<and>
    ReadFile plain = (join_lines (filter (\<lambda>l. \<not> full_line_comment l) ls), None) \<longrightarrow>
      NewJsonFromFile ReadFile Unmarshal commented = NewJsonFromFile ReadFile Unmarshal plain)"
proof (intro conjI impI)
  assume "ReadFile filename = (content, None)"
  then show "NewJsonFromFile ReadFile Unmarshal filename = NewJson Unmarshal (preprocessed content)"
    by (simp add: NewJsonFromFile_def NewJsonFromFile_loop_eq preprocessed_def)
next
  assume A: "(\<forall>l \<in> set ls. CHR 0x0A \<notin> set l) \<and>
    ReadFile commented = (join_lines ls, None) \<and>
    ReadFile plain = (join_lines (filter (\<lambda>l. \<not> full_line_comment l) ls), None)"
  have P: "\<And>f c. ReadFile f = (c, None) \<Longrightarrow>
      NewJsonFromFile ReadFile Unmarshal f = NewJson Unmarshal (preprocessed c)"
    by (simp add: NewJsonFromFile_def NewJsonFromFile_loop_eq preprocessed_def)
  from A have 1: "preprocessed (join_lines ls) = concat (filter kept (map strings_TrimSpace ls))"
    by (intro preprocessed_join_lines) simp
  from A have "\<forall>l \<in> set (filter (\<lambda>l. \<not> full_line_comment l) ls). CHR 0x0A \<notin> set l"
    by simp
  then have 2: "preprocessed (join_lines (filter (\<lambda>l. \<not> full_line_comment l) ls)) =
      concat (filter kept (map strings_TrimSpace (filter (\<lambda>l. \<not> full_line_comment l) ls)))"
    by (rule preprocessed_join_lines)
  from A P have "NewJsonFromFile ReadFile Unmarshal commented =
      NewJson Unmarshal (preprocessed (join_lines ls))" by simp
  moreover from A P have "NewJsonFromFile ReadFile Unmarshal plain =
      NewJson Unmarshal (preprocessed (join_lines (filter (\<lambda>l. \<not> full_line_comment l) ls)))"
    by simp
  ultimately show "NewJsonFromFile ReadFile Unmarshal commented =
      NewJsonFromFile ReadFile Unmarshal plain"
    by (simp only: 1 2 filter_kept_drop_comments)
qed

theorem NewJsonFromFile_preprocessing_witness:
  "NewJsonFromFile example_ReadFile example_Unmarshal ''commented.json'' =
     NewJson example_Unmarshal ''{}'' \<and>
   NewJsonFromFile example_ReadFile example_Unmarshal ''commented.json'' =
     NewJsonFromFile example_ReadFile example_Unmarshal ''plain.json''"
proof -
  have T: "strings_TrimSpace ''{'' = ''{''" "strings_TrimSpace ''  # comment'' = ''# comment''"
    "strings_TrimSpace ''}'' = ''}''"
    by (simp_all add: strings_TrimSpace_def asciiSpace_def space2_def space3_def)
  have S: "strings_Split (join_lines [''{'', ''  # comment'', ''}'']) (CHR 0x0A) =
      [''{'', ''  # comment'', ''}'']"
    by simp
  have B: "preprocessed (join_lines [''{'', ''  # comment'', ''}'']) = ''{}''"
    by (simp only: preprocessed_def S) (simp add: T kept_def strings_HasPrefix_def)
  have F: "filter (\<lambda>l. \<not> full_line_comment l) [''{'', ''  # comment'', ''}''] = [''{'', ''}'']"
    by (simp add: full_line_comment_def T strings_HasPrefix_def)
  have R: "example_ReadFile ''commented.json'' = (join_lines [''{'', ''  # comment'', ''}''], None)"
    "example_ReadFile ''plain.json'' = (join_lines [''{'', ''}''], None)"
    by (simp_all add: example_ReadFile_def)
  have N: "\<forall>l \<in> set [''{'', ''  # comment'', ''}'']. CHR 0x0A \<notin> set l"
    by simp
  have R': "example_ReadFile ''plain.json'' =
      (join_lines (filter (\<lambda>l. \<not> full_line_comment l) [''{'', ''  # comment'', ''}'']), None)"
    by (simp only: F R)
  note inst = NewJsonFromFile_preprocessing [of example_ReadFile "''commented.json''"
      "join_lines [''{'', ''  # comment'', ''}'']" example_Unmarshal
      "[''{'', ''  # comment'', ''}'']" "''commented.json''" "''plain.json''"]
  have 1: "NewJsonFromFile example_ReadFile example_Unmarshal ''commented.json'' =
      NewJson example_Unmarshal ''{}''"
    using inst [THEN conjunct1, THEN mp, OF R(1)] by (simp only: B)
  have 2: "NewJsonFromFile example_ReadFile example_Unmarshal ''commented.json'' =
      NewJsonFromFile example_ReadFile example_Unmarshal ''plain.json''"
    using inst [THEN conjunct2, THEN mp, OF conjI [OF N conjI [OF R(1) R']]] .
  from 1 2 show ?thesis ..
qed

end
